theory Spec2Isabelle
  imports Main "HOL-Library.Word" "HOL-Library.AList"
begin

unbundle bit_operations_syntax

section \<open>Scalars\<close>

text \<open>
  The fixed-width integers of \<^verbatim>\<open>net_common.hpp\<close> are words; \<open>+\<close>, \<open>-\<close> wrap around and
  \<open><\<close>, \<open>\<le>\<close> compare unsigned, as the C++ operators on \<^verbatim>\<open>uint32_t\<close> do.

  A \<^verbatim>\<open>float\<close> is represented by its 32 bits, the view that \<^verbatim>\<open>memcpy(&u, &v, 4)\<close> in
  \<^verbatim>\<open>writeFloat\<close> and \<^verbatim>\<open>readFloat\<close> takes of it. Literals are their IEEE-754 bit patterns.
  The arithmetic that the C++ compiler and \<^verbatim>\<open>libm\<close> supply (\<^verbatim>\<open>+ - * / < <=\<close>, \<^verbatim>\<open>cosf\<close>,
  \<^verbatim>\<open>sinf\<close>, \<^verbatim>\<open>sqrtf\<close>, the conversions) is not part of the repository: every function
  that calculates with floats takes it as the parameter \<open>fp\<close>, a record of operations on
  bit patterns, and nothing is assumed about it unless a theorem says so.
\<close>

type_synonym u8 = "8 word"
type_synonym u16 = "16 word"
type_synonym u32 = "32 word"
type_synonym float32 = "32 word"
type_synonym float64 = "64 word"

record float_ops =
  fadd :: "float32 \<Rightarrow> float32 \<Rightarrow> float32"
  fsub :: "float32 \<Rightarrow> float32 \<Rightarrow> float32"
  fmul :: "float32 \<Rightarrow> float32 \<Rightarrow> float32"
  fdiv :: "float32 \<Rightarrow> float32 \<Rightarrow> float32"
  flt :: "float32 \<Rightarrow> float32 \<Rightarrow> bool"
  fle :: "float32 \<Rightarrow> float32 \<Rightarrow> bool"
  cosf :: "float32 \<Rightarrow> float32"
  sinf :: "float32 \<Rightarrow> float32"
  sqrtf :: "float32 \<Rightarrow> float32"
  float_of_u32 :: "u32 \<Rightarrow> float32"
  double_of_float :: "float32 \<Rightarrow> float64"
  float_of_double :: "float64 \<Rightarrow> float32"
  dmul :: "float64 \<Rightarrow> float64 \<Rightarrow> float64"
  ddiv :: "float64 \<Rightarrow> float64 \<Rightarrow> float64"

text \<open>Float literals of the sources, as IEEE-754 single precision bit patterns.\<close>

definition F_0 :: float32 where "F_0 = 0x00000000"
definition F_0_01 :: float32 where "F_0_01 = 0x3C23D70A"
definition F_0_1 :: float32 where "F_0_1 = 0x3DCCCCCD"
definition F_0_5 :: float32 where "F_0_5 = 0x3F000000"
definition F_1 :: float32 where "F_1 = 0x3F800000"
definition F_1_7 :: float32 where "F_1_7 = 0x3FD9999A"
definition F_3 :: float32 where "F_3 = 0x40400000"
definition F_5 :: float32 where "F_5 = 0x40A00000"
definition F_180 :: float32 where "F_180 = 0x43340000"
definition F_neg3 :: float32 where "F_neg3 = 0xC0400000"
definition F_neg5 :: float32 where "F_neg5 = 0xC0A00000"
definition F_neg90 :: float32 where "F_neg90 = 0xC2B40000"

text \<open>\<^verbatim>\<open>M_PI\<close> is the \<^verbatim>\<open>double\<close> 3.14159265358979323846.\<close>

definition M_PI :: float64 where "M_PI = 0x400921FB54442D18"

text \<open>\<^verbatim>\<open>a > b\<close> on floats is \<^verbatim>\<open>b < a\<close>.\<close>

definition fgt :: "float_ops \<Rightarrow> float32 \<Rightarrow> float32 \<Rightarrow> bool" where
  "fgt fp a b = flt fp b a"

text \<open>\<^verbatim>\<open>std::min(a, b)\<close> is \<^verbatim>\<open>(b < a) ? b : a\<close>, \<^verbatim>\<open>std::max(a, b)\<close> is \<^verbatim>\<open>(a < b) ? b : a\<close>.\<close>

definition std_min :: "float_ops \<Rightarrow> float32 \<Rightarrow> float32 \<Rightarrow> float32" where
  "std_min fp a b = (if flt fp b a then b else a)"

definition std_max :: "float_ops \<Rightarrow> float32 \<Rightarrow> float32 \<Rightarrow> float32" where
  "std_max fp a b = (if flt fp a b then b else a)"

section \<open>Constants and packet types\<close>

definition MAX_PACKET_SIZE :: nat where "MAX_PACKET_SIZE = 1400"
definition INPUT_BUFFER_SIZE :: nat where "INPUT_BUFFER_SIZE = 64"
definition STATE_BUFFER_SIZE :: nat where "STATE_BUFFER_SIZE = 128"

text \<open>
  \<^verbatim>\<open>enum class PacketType : uint8_t\<close>. \<^verbatim>\<open>readHeader\<close> casts any byte to it, so a header's
  type is a byte and the enumerators are constants.
\<close>

definition CONNECT_REQUEST :: u8 where "CONNECT_REQUEST = 0x01"
definition CONNECT_ACCEPT :: u8 where "CONNECT_ACCEPT = 0x02"
definition CONNECT_REJECT :: u8 where "CONNECT_REJECT = 0x03"
definition DISCONNECT :: u8 where "DISCONNECT = 0x04"
definition HEARTBEAT :: u8 where "HEARTBEAT = 0x05"
definition INPUT :: u8 where "INPUT = 0x10"
definition STATE_UPDATE :: u8 where "STATE_UPDATE = 0x11"
definition WORLD_SNAPSHOT :: u8 where "WORLD_SNAPSHOT = 0x12"
definition ENTITY_CREATE :: u8 where "ENTITY_CREATE = 0x20"
definition ENTITY_DESTROY :: u8 where "ENTITY_DESTROY = 0x21"
definition EVENT_BROADCAST :: u8 where "EVENT_BROADCAST = 0x22"
definition ACK :: u8 where "ACK = 0x30"
definition RELIABLE_DATA :: u8 where "RELIABLE_DATA = 0x31"

section \<open>Entity and player state\<close>

record Vec3 =
  vx :: float32
  vy :: float32
  vz :: float32

definition vec3 :: "float32 \<Rightarrow> float32 \<Rightarrow> float32 \<Rightarrow> Vec3" where
  "vec3 a b c = \<lparr>vx = a, vy = b, vz = c\<rparr>"

definition vec_add :: "float_ops \<Rightarrow> Vec3 \<Rightarrow> Vec3 \<Rightarrow> Vec3" where
  "vec_add fp a b = vec3 (fadd fp (vx a) (vx b)) (fadd fp (vy a) (vy b)) (fadd fp (vz a) (vz b))"

definition vec_sub :: "float_ops \<Rightarrow> Vec3 \<Rightarrow> Vec3 \<Rightarrow> Vec3" where
  "vec_sub fp a b = vec3 (fsub fp (vx a) (vx b)) (fsub fp (vy a) (vy b)) (fsub fp (vz a) (vz b))"

definition vec_scale :: "float_ops \<Rightarrow> Vec3 \<Rightarrow> float32 \<Rightarrow> Vec3" where
  "vec_scale fp a s = vec3 (fmul fp (vx a) s) (fmul fp (vy a) s) (fmul fp (vz a) s)"

definition lerp :: "float_ops \<Rightarrow> Vec3 \<Rightarrow> Vec3 \<Rightarrow> float32 \<Rightarrow> Vec3" where
  "lerp fp a b t = vec_add fp a (vec_scale fp (vec_sub fp b a) t)"

record PlayerInput =
  in_sequence :: u32
  in_tick :: u32
  in_keys :: u8
  in_yaw :: float32
  in_pitch :: float32
  in_deltaTime :: float32

record PlayerState =
  ps_playerId :: u32
  ps_tick :: u32
  ps_position :: Vec3
  ps_yaw :: float32
  ps_pitch :: float32
  ps_lastProcessedInput :: u32

text \<open>\<^verbatim>\<open>PlayerState()\<close>: value-initialisation, every field zero.\<close>

definition PlayerState0 :: PlayerState where
  "PlayerState0 = \<lparr>ps_playerId = 0, ps_tick = 0, ps_position = vec3 F_0 F_0 F_0,
     ps_yaw = F_0, ps_pitch = F_0, ps_lastProcessedInput = 0\<rparr>"

record EntityState =
  es_entityId :: u32
  es_entityType :: u8
  es_position :: Vec3
  es_velocity :: Vec3
  es_yaw :: float32
  es_pitch :: float32

section \<open>Packet header\<close>

text \<open>\<^verbatim>\<open>uint8_t magic[4]\<close> is a quadruple of bytes.\<close>

type_synonym magic4 = "u8 \<times> u8 \<times> u8 \<times> u8"

record PacketHeader =
  h_magic :: magic4
  h_type :: u8
  h_sequence :: u32
  h_ack :: u32
  h_ackBits :: u32
  h_tick :: u32
  h_payloadSize :: u16

text \<open>The default constructor: magic 'P','U','L','S', type HEARTBEAT, the rest zero.\<close>

definition PacketHeader0 :: PacketHeader where
  "PacketHeader0 = \<lparr>h_magic = (0x50, 0x55, 0x4C, 0x53), h_type = HEARTBEAT, h_sequence = 0,
     h_ack = 0, h_ackBits = 0, h_tick = 0, h_payloadSize = 0\<rparr>"

definition isValid :: "PacketHeader \<Rightarrow> bool" where
  "isValid h = (case h_magic h of (m0, m1, m2, m3) \<Rightarrow>
     m0 = 0x50 \<and> m1 = 0x55 \<and> m2 = 0x4C \<and> m3 = 0x53)"

section \<open>Serialization buffer\<close>

text \<open>
  \<^verbatim>\<open>uint8_t data[MAX_PACKET_SIZE]\<close> is a function from indices to bytes (only indices below
  1400 are ever accessed: every write is guarded by \<^verbatim>\<open>writePos < MAX_PACKET_SIZE\<close>, every
  read by \<^verbatim>\<open>readPos < writePos\<close>). The cursors are \<^verbatim>\<open>size_t\<close>; they stay far below
  \<open>2^64\<close> and are natural numbers.
\<close>

record PacketBuffer =
  data :: "nat \<Rightarrow> u8"
  writePos :: nat
  readPos :: nat

text \<open>
  A buffer as its declaration \<^verbatim>\<open>PacketBuffer buffer;\<close> leaves it: both cursors 0, the array
  holding whatever \<open>d\<close> the memory held.
\<close>

definition new_buffer :: "(nat \<Rightarrow> u8) \<Rightarrow> PacketBuffer" where
  "new_buffer d = \<lparr>data = d, writePos = 0, readPos = 0\<rparr>"

definition writeU8 :: "PacketBuffer \<Rightarrow> u8 \<Rightarrow> PacketBuffer" where
  "writeU8 b v = (if writePos b < MAX_PACKET_SIZE
     then b\<lparr>data := (data b)(writePos b := v), writePos := writePos b + 1\<rparr>
     else b)"

definition writeU16 :: "PacketBuffer \<Rightarrow> u16 \<Rightarrow> PacketBuffer" where
  "writeU16 b v = writeU8 (writeU8 b (ucast (v AND 0xFF))) (ucast (drop_bit 8 v AND 0xFF))"

definition writeU32 :: "PacketBuffer \<Rightarrow> u32 \<Rightarrow> PacketBuffer" where
  "writeU32 b v =
     writeU16 (writeU16 b (ucast (v AND 0xFFFF))) (ucast (drop_bit 16 v AND 0xFFFF))"

definition writeFloat :: "PacketBuffer \<Rightarrow> float32 \<Rightarrow> PacketBuffer" where
  "writeFloat b v = writeU32 b v"

definition writeVec3 :: "PacketBuffer \<Rightarrow> Vec3 \<Rightarrow> PacketBuffer" where
  "writeVec3 b v = writeFloat (writeFloat (writeFloat b (vx v)) (vy v)) (vz v)"

text \<open>\<^verbatim>\<open>memcpy(data + writePos, src, len)\<close>, \<open>src\<close> given as the list of its \<open>len\<close> bytes.\<close>

definition writeBytes :: "PacketBuffer \<Rightarrow> u8 list \<Rightarrow> PacketBuffer" where
  "writeBytes b src = (if writePos b + length src \<le> MAX_PACKET_SIZE
     then b\<lparr>data := (\<lambda>i. if writePos b \<le> i \<and> i < writePos b + length src
                           then src ! (i - writePos b) else data b i),
            writePos := writePos b + length src\<rparr>
     else b)"

definition readU8 :: "PacketBuffer \<Rightarrow> u8 \<times> PacketBuffer" where
  "readU8 b = (if readPos b < writePos b
     then (data b (readPos b), b\<lparr>readPos := readPos b + 1\<rparr>)
     else (0, b))"

definition readU16 :: "PacketBuffer \<Rightarrow> u16 \<times> PacketBuffer" where
  "readU16 b = (let (v, b1) = readU8 b; (w, b2) = readU8 b1
     in (ucast v OR push_bit 8 (ucast w), b2))"

definition readU32 :: "PacketBuffer \<Rightarrow> u32 \<times> PacketBuffer" where
  "readU32 b = (let (v, b1) = readU16 b; (w, b2) = readU16 b1
     in (ucast v OR push_bit 16 (ucast w), b2))"

definition readFloat :: "PacketBuffer \<Rightarrow> float32 \<times> PacketBuffer" where
  "readFloat b = readU32 b"

definition readVec3 :: "PacketBuffer \<Rightarrow> Vec3 \<times> PacketBuffer" where
  "readVec3 b = (let (x, b1) = readFloat b; (y, b2) = readFloat b1; (z, b3) = readFloat b2
     in (vec3 x y z, b3))"

text \<open>
  \<^verbatim>\<open>readBytes(dst, len)\<close>: \<open>dst\<close> is the destination's present content, \<open>len\<close> bytes; the
  result is its content afterwards. Past the write cursor nothing is copied.
\<close>

definition readBytes :: "PacketBuffer \<Rightarrow> u8 list \<Rightarrow> u8 list \<times> PacketBuffer" where
  "readBytes b dst = (if readPos b + length dst \<le> writePos b
     then (map (\<lambda>i. data b (readPos b + i)) [0..<length dst],
           b\<lparr>readPos := readPos b + length dst\<rparr>)
     else (dst, b))"

definition magic_bytes :: "magic4 \<Rightarrow> u8 list" where
  "magic_bytes m = (case m of (m0, m1, m2, m3) \<Rightarrow> [m0, m1, m2, m3])"

definition bytes_magic :: "u8 list \<Rightarrow> magic4" where
  "bytes_magic bs = (bs ! 0, bs ! 1, bs ! 2, bs ! 3)"

definition writeHeader :: "PacketBuffer \<Rightarrow> PacketHeader \<Rightarrow> PacketBuffer" where
  "writeHeader b h =
     (let b1 = writeBytes b (magic_bytes (h_magic h));
          b2 = writeU8 b1 (h_type h);
          b3 = writeU32 b2 (h_sequence h);
          b4 = writeU32 b3 (h_ack h);
          b5 = writeU32 b4 (h_ackBits h);
          b6 = writeU32 b5 (h_tick h)
      in writeU16 b6 (h_payloadSize h))"

definition readHeader :: "PacketBuffer \<Rightarrow> PacketHeader \<times> PacketBuffer" where
  "readHeader b =
     (let h = PacketHeader0;
          (m, b1) = readBytes b (magic_bytes (h_magic h));
          (ty, b2) = readU8 b1;
          (sq, b3) = readU32 b2;
          (ak, b4) = readU32 b3;
          (ab, b5) = readU32 b4;
          (tk, b6) = readU32 b5;
          (pl, b7) = readU16 b6
      in (h\<lparr>h_magic := bytes_magic m, h_type := ty, h_sequence := sq, h_ack := ak,
            h_ackBits := ab, h_tick := tk, h_payloadSize := pl\<rparr>, b7))"

definition writePlayerInput :: "PacketBuffer \<Rightarrow> PlayerInput \<Rightarrow> PacketBuffer" where
  "writePlayerInput b i =
     (let b1 = writeU32 b (in_sequence i);
          b2 = writeU32 b1 (in_tick i);
          b3 = writeU8 b2 (in_keys i);
          b4 = writeFloat b3 (in_yaw i);
          b5 = writeFloat b4 (in_pitch i)
      in writeFloat b5 (in_deltaTime i))"

definition readPlayerInput :: "PacketBuffer \<Rightarrow> PlayerInput \<times> PacketBuffer" where
  "readPlayerInput b =
     (let (sq, b1) = readU32 b;
          (tk, b2) = readU32 b1;
          (ks, b3) = readU8 b2;
          (yw, b4) = readFloat b3;
          (pt, b5) = readFloat b4;
          (dt, b6) = readFloat b5
      in (\<lparr>in_sequence = sq, in_tick = tk, in_keys = ks, in_yaw = yw, in_pitch = pt,
            in_deltaTime = dt\<rparr>, b6))"

definition writePlayerState :: "PacketBuffer \<Rightarrow> PlayerState \<Rightarrow> PacketBuffer" where
  "writePlayerState b s =
     (let b1 = writeU32 b (ps_playerId s);
          b2 = writeU32 b1 (ps_tick s);
          b3 = writeVec3 b2 (ps_position s);
          b4 = writeFloat b3 (ps_yaw s);
          b5 = writeFloat b4 (ps_pitch s)
      in writeU32 b5 (ps_lastProcessedInput s))"

definition readPlayerState :: "PacketBuffer \<Rightarrow> PlayerState \<times> PacketBuffer" where
  "readPlayerState b =
     (let (pid, b1) = readU32 b;
          (tk, b2) = readU32 b1;
          (pos, b3) = readVec3 b2;
          (yw, b4) = readFloat b3;
          (pt, b5) = readFloat b4;
          (lp, b6) = readU32 b5
      in (\<lparr>ps_playerId = pid, ps_tick = tk, ps_position = pos, ps_yaw = yw, ps_pitch = pt,
            ps_lastProcessedInput = lp\<rparr>, b6))"

definition writeEntityState :: "PacketBuffer \<Rightarrow> EntityState \<Rightarrow> PacketBuffer" where
  "writeEntityState b e =
     (let b1 = writeU32 b (es_entityId e);
          b2 = writeU8 b1 (es_entityType e);
          b3 = writeVec3 b2 (es_position e);
          b4 = writeVec3 b3 (es_velocity e);
          b5 = writeFloat b4 (es_yaw e)
      in writeFloat b5 (es_pitch e))"

definition readEntityState :: "PacketBuffer \<Rightarrow> EntityState \<times> PacketBuffer" where
  "readEntityState b =
     (let (eid, b1) = readU32 b;
          (ty, b2) = readU8 b1;
          (pos, b3) = readVec3 b2;
          (vel, b4) = readVec3 b3;
          (yw, b5) = readFloat b4;
          (pt, b6) = readFloat b5
      in (\<lparr>es_entityId = eid, es_entityType = ty, es_position = pos, es_velocity = vel,
            es_yaw = yw, es_pitch = pt\<rparr>, b6))"

text \<open>The bytes of a buffer that \<^verbatim>\<open>sendto(.., buffer.data, buffer.writePos, ..)\<close> transmits.\<close>

definition datagram :: "PacketBuffer \<Rightarrow> u8 list" where
  "datagram b = map (data b) [0..<writePos b]"

text \<open>
  The buffer after \<^verbatim>\<open>recvfrom(.., buffer.data, MAX_PACKET_SIZE, ..)\<close> returned the datagram
  \<open>dg\<close> (cut to the array's size) and \<^verbatim>\<open>writePos = received; readPos = 0\<close>. \<open>old\<close> is the
  array's earlier content, which stays beyond the received bytes.
\<close>

definition recv_buffer :: "(nat \<Rightarrow> u8) \<Rightarrow> u8 list \<Rightarrow> PacketBuffer" where
  "recv_buffer old dg =
     \<lparr>data = (\<lambda>i. if i < min (length dg) MAX_PACKET_SIZE then dg ! i else old i),
      writePos = min (length dg) MAX_PACKET_SIZE, readPos = 0\<rparr>"

section \<open>Connection state and the reliability layer\<close>

datatype ConnectionState = DISCONNECTED | CONNECTING | CONNECTED | DISCONNECTING

text \<open>Of a \<^verbatim>\<open>sockaddr_in\<close> the code compares \<^verbatim>\<open>sin_addr.s_addr\<close> and \<^verbatim>\<open>sin_port\<close>.\<close>

type_synonym sockaddr_in = "u32 \<times> u16"

definition addressEqual :: "sockaddr_in \<Rightarrow> sockaddr_in \<Rightarrow> bool" where
  "addressEqual a b = (fst a = fst b \<and> snd a = snd b)"

record Connection =
  cn_playerId :: u32
  cn_address :: sockaddr_in
  cn_state :: ConnectionState
  cn_localSequence :: u32
  cn_remoteSequence :: u32
  cn_ackBits :: u32
  cn_lastReceiveTime :: float32
  cn_lastSendTime :: float32
  cn_rtt :: float32
  cn_pendingInputs :: "PlayerInput list"
  cn_lastProcessedInput :: u32

definition Connection0 :: Connection where
  "Connection0 = \<lparr>cn_playerId = 0, cn_address = (0, 0), cn_state = DISCONNECTED,
     cn_localSequence = 0, cn_remoteSequence = 0, cn_ackBits = 0, cn_lastReceiveTime = F_0,
     cn_lastSendTime = F_0, cn_rtt = F_0_1, cn_pendingInputs = [], cn_lastProcessedInput = 0\<rparr>"

definition Host_updateAcks :: "Connection \<Rightarrow> PacketHeader \<Rightarrow> Connection" where
  "Host_updateAcks conn header =
     (if cn_remoteSequence conn < h_sequence header then
        (let shift = h_sequence header - cn_remoteSequence conn;
             conn1 = (if shift < 32
                      then conn\<lparr>cn_ackBits := push_bit (unat shift) (cn_ackBits conn) OR 1\<rparr>
                      else conn\<lparr>cn_ackBits := 1\<rparr>)
         in conn1\<lparr>cn_remoteSequence := h_sequence header\<rparr>)
      else if h_sequence header < cn_remoteSequence conn then
        (let diff = cn_remoteSequence conn - h_sequence header
         in if diff < 32 then conn\<lparr>cn_ackBits := cn_ackBits conn OR push_bit (unat diff) 1\<rparr>
            else conn)
      else conn)"

section \<open>Interpolation state\<close>

text \<open>\<^verbatim>\<open>PlayerState states[STATE_BUFFER_SIZE]\<close>, indexed below 128; \<^verbatim>\<open>uint32_t count\<close>.\<close>

record InterpolationState =
  is_states :: "nat \<Rightarrow> PlayerState"
  is_count :: u32

definition InterpolationState0 :: InterpolationState where
  "InterpolationState0 = \<lparr>is_states = (\<lambda>i. PlayerState0), is_count = 0\<rparr>"

definition addState :: "InterpolationState \<Rightarrow> PlayerState \<Rightarrow> InterpolationState" where
  "addState st s =
     st\<lparr>is_states := (is_states st)(unat (is_count st) mod STATE_BUFFER_SIZE := s),
        is_count := is_count st + 1\<rparr>"

text \<open>
  \<^verbatim>\<open>interpolate(targetTick, out)\<close>: \<open>None\<close> is the return value \<^verbatim>\<open>false\<close> (\<open>out\<close> untouched),
  \<open>Some s\<close> is \<^verbatim>\<open>true\<close> with \<open>out = s\<close>. The \<^verbatim>\<open>for\<close> loop with its \<^verbatim>\<open>break\<close> is the search for
  the first \<open>i\<close> whose state has a tick at most \<open>targetTick\<close>.
\<close>

definition interpolate :: "float_ops \<Rightarrow> InterpolationState \<Rightarrow> u32 \<Rightarrow> PlayerState option" where
  "interpolate fp st targetTick =
     (if is_count st < 2 then None
      else
        (case find (\<lambda>i. ps_tick (is_states st
                      (unat (is_count st - 1 - of_nat i) mod STATE_BUFFER_SIZE)) \<le> targetTick)
                [0..<min (unat (is_count st)) STATE_BUFFER_SIZE] of
           None \<Rightarrow> None
         | Some i \<Rightarrow>
             (let before = is_states st (unat (is_count st - 1 - of_nat i) mod STATE_BUFFER_SIZE)
              in if i > 0 then
                   (let after = is_states st (unat (is_count st - of_nat i) mod STATE_BUFFER_SIZE);
                        t0 = fdiv fp (float_of_u32 fp (targetTick - ps_tick before))
                                     (float_of_u32 fp (ps_tick after - ps_tick before));
                        t = std_max fp F_0 (std_min fp F_1 t0)
                    in Some \<lparr>ps_playerId = ps_playerId before, ps_tick = targetTick,
                         ps_position = lerp fp (ps_position before) (ps_position after) t,
                         ps_yaw = fadd fp (ps_yaw before)
                                    (fmul fp (fsub fp (ps_yaw after) (ps_yaw before)) t),
                         ps_pitch = fadd fp (ps_pitch before)
                                    (fmul fp (fsub fp (ps_pitch after) (ps_pitch before)) t),
                         ps_lastProcessedInput = ps_lastProcessedInput after\<rparr>)
                 else Some before)))"

section \<open>Input history\<close>

text \<open>
  \<^verbatim>\<open>uint32_t head, count\<close> are natural numbers: the code reduces every index modulo 64,
  which divides \<open>2^32\<close>, so the wrap-around of \<^verbatim>\<open>head + count\<close> is not observable.
\<close>

record InputHistory =
  ih_inputs :: "nat \<Rightarrow> PlayerInput"
  ih_predictedStates :: "nat \<Rightarrow> PlayerState"
  ih_head :: nat
  ih_count :: nat

definition addInput :: "InputHistory \<Rightarrow> PlayerInput \<Rightarrow> PlayerState \<Rightarrow> InputHistory" where
  "addInput h input predicted =
     (let idx = (ih_head h + ih_count h) mod INPUT_BUFFER_SIZE;
          h1 = h\<lparr>ih_inputs := (ih_inputs h)(idx := input),
                 ih_predictedStates := (ih_predictedStates h)(idx := predicted)\<rparr>
      in if ih_count h < INPUT_BUFFER_SIZE then h1\<lparr>ih_count := ih_count h + 1\<rparr>
         else h1\<lparr>ih_head := (ih_head h + 1) mod INPUT_BUFFER_SIZE\<rparr>)"

function acknowledgeUpTo :: "InputHistory \<Rightarrow> u32 \<Rightarrow> InputHistory" where
  "acknowledgeUpTo h sq =
     (if ih_count h > 0 \<and> in_sequence (ih_inputs h (ih_head h)) \<le> sq
      then acknowledgeUpTo
             (h\<lparr>ih_head := (ih_head h + 1) mod INPUT_BUFFER_SIZE, ih_count := ih_count h - 1\<rparr>) sq
      else h)"
  by pat_completeness auto
termination
  by (relation "measure (\<lambda>(h, sq). ih_count h)") auto

definition getUnacknowledged :: "InputHistory \<Rightarrow> PlayerInput list" where
  "getUnacknowledged h =
     map (\<lambda>i. ih_inputs h ((ih_head h + i) mod INPUT_BUFFER_SIZE)) [0..<ih_count h]"

section \<open>Containers\<close>

text \<open>
  A \<^verbatim>\<open>std::unordered_map\<close> is an association list with distinct keys; the list's order
  stands for the container's iteration order, which C++ leaves unspecified. \<open>map_of\<close> is
  \<^verbatim>\<open>find\<close>, \<open>AList.update\<close> is assignment through \<^verbatim>\<open>operator[]\<close>, \<open>AList.delete\<close> is
  \<^verbatim>\<open>erase\<close>, and \<open>at_default d\<close> reads through \<^verbatim>\<open>operator[]\<close>, which yields a
  value-initialised element \<open>d\<close> for a missing key.
\<close>

definition at_default :: "'v \<Rightarrow> ('k \<times> 'v) list \<Rightarrow> 'k \<Rightarrow> 'v" where
  "at_default d al k = (case map_of al k of Some v \<Rightarrow> v | None \<Rightarrow> d)"

definition ensure_key :: "'v \<Rightarrow> 'k \<Rightarrow> ('k \<times> 'v) list \<Rightarrow> ('k \<times> 'v) list" where
  "ensure_key d k al = (case map_of al k of Some v \<Rightarrow> al | None \<Rightarrow> AList.update k d al)"

section \<open>Client\<close>

text \<open>
  The fields of \<^verbatim>\<open>class Client\<close>. \<open>cl_socketOpen\<close> is \<^verbatim>\<open>socket_ != SOCKET_INVALID\<close>;
  \<open>cl_sent\<close> collects, in order, the datagrams handed to \<^verbatim>\<open>sendto\<close>; \<open>cl_events\<close>
  collects the calls of the callbacks \<^verbatim>\<open>onConnected\<close>, \<^verbatim>\<open>onDisconnected\<close>,
  \<^verbatim>\<open>onEntityCreated\<close>, \<^verbatim>\<open>onEntityDestroyed\<close> that the code makes when they are set.
\<close>

datatype ClientEvent =
  OnConnected u32
  | OnDisconnected
  | OnEntityCreated u32 u8 Vec3
  | OnEntityDestroyed u32

record Client =
  cl_socketOpen :: bool
  cl_serverAddr :: sockaddr_in
  cl_state :: ConnectionState
  cl_playerId :: u32
  cl_serverTick :: u32
  cl_localSequence :: u32
  cl_remoteSequence :: u32
  cl_ackBits :: u32
  cl_inputSequence :: u32
  cl_lastSendTime :: float32
  cl_lastReceiveTime :: float32
  cl_connectStartTime :: float32
  cl_rtt :: float32
  cl_localState :: PlayerState
  cl_lastServerState :: PlayerState
  cl_remotePlayers :: "(u32 \<times> PlayerState) list"
  cl_interpolationStates :: "(u32 \<times> InterpolationState) list"
  cl_inputHistory :: InputHistory
  cl_sent :: "u8 list list"
  cl_events :: "ClientEvent list"

text \<open>
  A local \<^verbatim>\<open>PacketBuffer buffer;\<close> of a sending function. Its array is uninitialised in
  C++; it is taken as zero bytes here. Every sender writes each byte below the final
  \<^verbatim>\<open>writePos\<close> before it sends.
\<close>

definition local_buffer :: PacketBuffer where
  "local_buffer = new_buffer (\<lambda>i. 0)"

definition Client_sendToServer :: "Client \<Rightarrow> PacketBuffer \<Rightarrow> Client" where
  "Client_sendToServer c buffer =
     (if cl_socketOpen c then c\<lparr>cl_sent := cl_sent c @ [datagram buffer]\<rparr> else c)"

definition Client_applyInputToState ::
  "float_ops \<Rightarrow> PlayerState \<Rightarrow> PlayerInput \<Rightarrow> PlayerState" where
  "Client_applyInputToState fp state input =
     (let velocity = fmul fp F_5 (in_deltaTime input);
          yawRad = float_of_double fp
                     (ddiv fp (dmul fp (double_of_float fp (in_yaw input)) M_PI)
                              (double_of_float fp F_180));
          p0 = ps_position state;
          p1 = (if in_keys input AND 0x01 \<noteq> 0
                then p0\<lparr>vx := fadd fp (vx p0) (fmul fp (cosf fp yawRad) velocity),
                        vz := fadd fp (vz p0) (fmul fp (sinf fp yawRad) velocity)\<rparr>
                else p0);
          p2 = (if in_keys input AND 0x02 \<noteq> 0
                then p1\<lparr>vx := fsub fp (vx p1) (fmul fp (cosf fp yawRad) velocity),
                        vz := fsub fp (vz p1) (fmul fp (sinf fp yawRad) velocity)\<rparr>
                else p1);
          p3 = (if in_keys input AND 0x04 \<noteq> 0
                then p2\<lparr>vx := fadd fp (vx p2) (fmul fp (sinf fp yawRad) velocity),
                        vz := fsub fp (vz p2) (fmul fp (cosf fp yawRad) velocity)\<rparr>
                else p2);
          p4 = (if in_keys input AND 0x08 \<noteq> 0
                then p3\<lparr>vx := fsub fp (vx p3) (fmul fp (sinf fp yawRad) velocity),
                        vz := fadd fp (vz p3) (fmul fp (cosf fp yawRad) velocity)\<rparr>
                else p3);
          p5 = (if in_keys input AND 0x10 \<noteq> 0
                then p4\<lparr>vy := fadd fp (vy p4) velocity\<rparr> else p4);
          p6 = (if in_keys input AND 0x20 \<noteq> 0
                then p5\<lparr>vy := fsub fp (vy p5) velocity\<rparr> else p5)
      in state\<lparr>ps_position := p6, ps_yaw := in_yaw input, ps_pitch := in_pitch input\<rparr>)"

definition Client_updateAcks :: "Client \<Rightarrow> PacketHeader \<Rightarrow> Client" where
  "Client_updateAcks c header =
     (if cl_remoteSequence c < h_sequence header then
        (let shift = h_sequence header - cl_remoteSequence c;
             c1 = (if shift < 32
                   then c\<lparr>cl_ackBits := push_bit (unat shift) (cl_ackBits c) OR 1\<rparr>
                   else c\<lparr>cl_ackBits := 1\<rparr>)
         in c1\<lparr>cl_remoteSequence := h_sequence header\<rparr>)
      else if h_sequence header < cl_remoteSequence c then
        (let diff = cl_remoteSequence c - h_sequence header
         in if diff < 32 then c\<lparr>cl_ackBits := cl_ackBits c OR push_bit (unat diff) 1\<rparr>
            else c)
      else c)"

definition Client_reconcileState :: "float_ops \<Rightarrow> Client \<Rightarrow> PlayerState \<Rightarrow> Client" where
  "Client_reconcileState fp c serverState =
     (let c1 = c\<lparr>cl_lastServerState := serverState\<rparr>;
          c2 = c1\<lparr>cl_inputHistory :=
                    acknowledgeUpTo (cl_inputHistory c1) (ps_lastProcessedInput serverState)\<rparr>;
          error = vec_sub fp (ps_position serverState) (ps_position (cl_localState c2));
          errorMag = sqrtf fp (fadd fp (fadd fp (fmul fp (vx error) (vx error))
                                                (fmul fp (vy error) (vy error)))
                                       (fmul fp (vz error) (vz error)))
      in if fgt fp errorMag F_0_01 then
           (let corrected = foldl (Client_applyInputToState fp) serverState
                              (getUnacknowledged (cl_inputHistory c2));
                l = cl_localState c2;
                p = ps_position l
            in if flt fp errorMag F_1 then
                 (let blendFactor = F_0_1;
                      p1 = p\<lparr>vx := fadd fp (vx p)
                                 (fmul fp (fsub fp (vx (ps_position corrected)) (vx p)) blendFactor)\<rparr>;
                      p2 = p1\<lparr>vy := fadd fp (vy p1)
                                 (fmul fp (fsub fp (vy (ps_position corrected)) (vy p1)) blendFactor)\<rparr>;
                      p3 = p2\<lparr>vz := fadd fp (vz p2)
                                 (fmul fp (fsub fp (vz (ps_position corrected)) (vz p2)) blendFactor)\<rparr>
                  in c2\<lparr>cl_localState := l\<lparr>ps_position := p3\<rparr>\<rparr>)
               else c2\<lparr>cl_localState := l\<lparr>ps_position := ps_position corrected\<rparr>\<rparr>)
         else c2)"

definition Client_handleConnectAccept ::
  "Client \<Rightarrow> PacketBuffer \<Rightarrow> PacketHeader \<Rightarrow> Client" where
  "Client_handleConnectAccept c buffer header =
     (let (pid, b1) = readU32 buffer;
          (tk, b2) = readU32 b1;
          c1 = c\<lparr>cl_playerId := pid, cl_serverTick := tk, cl_state := CONNECTED\<rparr>;
          l = (cl_localState c1)\<lparr>ps_playerId := pid, ps_position := vec3 F_0 F_1_7 F_5,
                 ps_yaw := F_neg90, ps_pitch := F_0, ps_tick := tk\<rparr>
      in c1\<lparr>cl_localState := l, cl_events := cl_events c1 @ [OnConnected pid]\<rparr>)"

text \<open>The \<^verbatim>\<open>else\<close> branch shared by the two loops over received player states.\<close>

definition Client_storeRemote :: "Client \<Rightarrow> PlayerState \<Rightarrow> Client" where
  "Client_storeRemote c state =
     c\<lparr>cl_remotePlayers := AList.update (ps_playerId state) state (cl_remotePlayers c),
       cl_interpolationStates :=
         AList.update (ps_playerId state)
           (addState (at_default InterpolationState0 (cl_interpolationStates c)
                        (ps_playerId state)) state)
           (cl_interpolationStates c)\<rparr>"

text \<open>The loop of \<^verbatim>\<open>handleStateUpdate\<close>, \<open>n\<close> iterations left.\<close>

fun Client_stateUpdate_loop ::
  "float_ops \<Rightarrow> nat \<Rightarrow> Client \<Rightarrow> PacketBuffer \<Rightarrow> Client \<times> PacketBuffer" where
  "Client_stateUpdate_loop fp 0 c b = (c, b)"
| "Client_stateUpdate_loop fp (Suc n) c b =
     (let (state, b1) = readPlayerState b;
          c1 = (if ps_playerId state = cl_playerId c then Client_reconcileState fp c state
                else Client_storeRemote c state)
      in Client_stateUpdate_loop fp n c1 b1)"

definition Client_handleStateUpdate ::
  "float_ops \<Rightarrow> Client \<Rightarrow> PacketBuffer \<Rightarrow> PacketHeader \<Rightarrow> Client" where
  "Client_handleStateUpdate fp c buffer header =
     (let c1 = c\<lparr>cl_serverTick := h_tick header\<rparr>;
          (playerCount, b1) = readU8 buffer
      in fst (Client_stateUpdate_loop fp (unat playerCount) c1 b1))"

text \<open>The two loops of \<^verbatim>\<open>handleWorldSnapshot\<close>.\<close>

fun Client_snapshot_players :: "nat \<Rightarrow> Client \<Rightarrow> PacketBuffer \<Rightarrow> Client \<times> PacketBuffer" where
  "Client_snapshot_players 0 c b = (c, b)"
| "Client_snapshot_players (Suc n) c b =
     (let (state, b1) = readPlayerState b;
          c1 = (if ps_playerId state = cl_playerId c
                then c\<lparr>cl_localState := state, cl_lastServerState := state\<rparr>
                else Client_storeRemote c state)
      in Client_snapshot_players n c1 b1)"

fun Client_snapshot_entities :: "nat \<Rightarrow> Client \<Rightarrow> PacketBuffer \<Rightarrow> Client \<times> PacketBuffer" where
  "Client_snapshot_entities 0 c b = (c, b)"
| "Client_snapshot_entities (Suc n) c b =
     (let (entity, b1) = readEntityState b;
          c1 = c\<lparr>cl_events := cl_events c @
                  [OnEntityCreated (es_entityId entity) (es_entityType entity)
                     (es_position entity)]\<rparr>
      in Client_snapshot_entities n c1 b1)"

definition Client_handleWorldSnapshot :: "Client \<Rightarrow> PacketBuffer \<Rightarrow> Client" where
  "Client_handleWorldSnapshot c buffer =
     (let (playerCount, b1) = readU8 buffer;
          (c1, b2) = Client_snapshot_players (unat playerCount) c b1;
          (entityCount, b3) = readU8 b2
      in fst (Client_snapshot_entities (unat entityCount) c1 b3))"

definition Client_handleEntityCreate :: "Client \<Rightarrow> PacketBuffer \<Rightarrow> Client" where
  "Client_handleEntityCreate c buffer =
     (let (entityId, b1) = readU32 buffer;
          (ty, b2) = readU8 b1;
          (pos, b3) = readVec3 b2;
          c1 = (if ty = 0
                then c\<lparr>cl_remotePlayers :=
                         AList.update entityId
                           (PlayerState0\<lparr>ps_playerId := entityId, ps_position := pos\<rparr>)
                           (cl_remotePlayers c)\<rparr>
                else c)
      in c1\<lparr>cl_events := cl_events c1 @ [OnEntityCreated entityId ty pos]\<rparr>)"

definition Client_handleEntityDestroy :: "Client \<Rightarrow> PacketBuffer \<Rightarrow> Client" where
  "Client_handleEntityDestroy c buffer =
     (let (entityId, b1) = readU32 buffer
      in c\<lparr>cl_remotePlayers := AList.delete entityId (cl_remotePlayers c),
            cl_interpolationStates := AList.delete entityId (cl_interpolationStates c),
            cl_events := cl_events c @ [OnEntityDestroyed entityId]\<rparr>)"

definition Client_sendDisconnect :: "Client \<Rightarrow> Client" where
  "Client_sendDisconnect c =
     (let c1 = c\<lparr>cl_localSequence := cl_localSequence c + 1\<rparr>;
          header = PacketHeader0\<lparr>h_type := DISCONNECT, h_sequence := cl_localSequence c1\<rparr>
      in Client_sendToServer c1 (writeHeader local_buffer header))"

definition Client_disconnect :: "Client \<Rightarrow> Client" where
  "Client_disconnect c =
     (let c1 = (if cl_state c \<noteq> DISCONNECTED
                then (let c' = (Client_sendDisconnect c)\<lparr>cl_state := DISCONNECTED\<rparr>
                      in c'\<lparr>cl_events := cl_events c' @ [OnDisconnected]\<rparr>)
                else c);
          c2 = c1\<lparr>cl_socketOpen := False\<rparr>
      in c2\<lparr>cl_remotePlayers := [], cl_interpolationStates := [],
             cl_inputHistory := (cl_inputHistory c2)\<lparr>ih_count := 0, ih_head := 0\<rparr>\<rparr>)"

definition Client_handlePacket ::
  "float_ops \<Rightarrow> Client \<Rightarrow> PacketHeader \<Rightarrow> PacketBuffer \<Rightarrow> float32 \<Rightarrow> Client" where
  "Client_handlePacket fp c header buffer now =
     (let c1 = c\<lparr>cl_lastReceiveTime := now\<rparr>;
          c2 = Client_updateAcks c1 header
      in if h_type header = CONNECT_ACCEPT then Client_handleConnectAccept c2 buffer header
         else if h_type header = CONNECT_REJECT then Client_disconnect c2
         else if h_type header = DISCONNECT then Client_disconnect c2
         else if h_type header = HEARTBEAT then c2
         else if h_type header = STATE_UPDATE then Client_handleStateUpdate fp c2 buffer header
         else if h_type header = WORLD_SNAPSHOT then Client_handleWorldSnapshot c2 buffer
         else if h_type header = ENTITY_CREATE then Client_handleEntityCreate c2 buffer
         else if h_type header = ENTITY_DESTROY then Client_handleEntityDestroy c2 buffer
         else c2)"

text \<open>
  \<^verbatim>\<open>receivePackets(now)\<close>, given the datagrams \<open>dgs\<close> that wait at the socket, in order.
  \<^verbatim>\<open>recvfrom\<close> returns -1 when none is left or the socket is closed, and 0 for an empty
  datagram; both end the loop. The local buffer is reused from one iteration to the next.
\<close>

fun Client_receive_loop ::
  "float_ops \<Rightarrow> Client \<Rightarrow> (nat \<Rightarrow> u8) \<Rightarrow> float32 \<Rightarrow> u8 list list \<Rightarrow> Client" where
  "Client_receive_loop fp c old now [] = c"
| "Client_receive_loop fp c old now (dg # dgs) =
     (if \<not> cl_socketOpen c \<or> length dg = 0 then c
      else
        (let buffer = recv_buffer old dg;
             (header, buffer1) = readHeader buffer
         in if \<not> isValid header then Client_receive_loop fp c (data buffer1) now dgs
            else Client_receive_loop fp (Client_handlePacket fp c header buffer1 now)
                   (data buffer1) now dgs))"

definition Client_receivePackets ::
  "float_ops \<Rightarrow> Client \<Rightarrow> float32 \<Rightarrow> u8 list list \<Rightarrow> Client" where
  "Client_receivePackets fp c now dgs = Client_receive_loop fp c (data local_buffer) now dgs"

text \<open>
  The packet that \<^verbatim>\<open>sendInput\<close> builds (lines 151 to 174) from the header it has filled in
  and the unacknowledged inputs.
\<close>

definition Client_inputPacket :: "PacketHeader \<Rightarrow> PlayerInput list \<Rightarrow> PacketBuffer" where
  "Client_inputPacket header unacked =
     (let buffer = local_buffer;
          headerPos = writePos buffer;
          buffer1 = buffer\<lparr>writePos := writePos buffer + 22\<rparr>;
          count = min (length unacked) 5;
          buffer2 = foldl writePlayerInput buffer1 (drop (length unacked - count) unacked);
          header1 = header\<lparr>h_payloadSize := of_nat (writePos buffer2 - headerPos - 22)\<rparr>;
          savedPos = writePos buffer2;
          buffer3 = writeHeader (buffer2\<lparr>writePos := headerPos\<rparr>) header1
      in buffer3\<lparr>writePos := savedPos\<rparr>)"

definition Client_sendInput :: "float_ops \<Rightarrow> Client \<Rightarrow> PlayerInput \<Rightarrow> Client" where
  "Client_sendInput fp c input =
     (if cl_state c \<noteq> CONNECTED then c
      else
        (let c1 = c\<lparr>cl_inputSequence := cl_inputSequence c + 1\<rparr>;
             seqInput = input\<lparr>in_sequence := cl_inputSequence c1, in_tick := cl_serverTick c1\<rparr>;
             predicted = (Client_applyInputToState fp (cl_localState c1) seqInput)
                           \<lparr>ps_tick := cl_serverTick c1\<rparr>;
             c2 = c1\<lparr>cl_inputHistory := addInput (cl_inputHistory c1) seqInput predicted\<rparr>;
             c3 = c2\<lparr>cl_localState := predicted\<rparr>;
             c4 = c3\<lparr>cl_localSequence := cl_localSequence c3 + 1\<rparr>;
             header = PacketHeader0\<lparr>h_type := INPUT, h_sequence := cl_localSequence c4,
                        h_ack := cl_remoteSequence c4, h_ackBits := cl_ackBits c4,
                        h_tick := cl_serverTick c4\<rparr>
         in Client_sendToServer c4
              (Client_inputPacket header (getUnacknowledged (cl_inputHistory c4)))))"

text \<open>
  The start of \<^verbatim>\<open>update(deltaTime)\<close>: nothing is received while the state is
  \<^verbatim>\<open>DISCONNECTED\<close>. (The timeout and heartbeat steps that follow the receive step are not
  modelled.)
\<close>

definition Client_update_receive ::
  "float_ops \<Rightarrow> Client \<Rightarrow> float32 \<Rightarrow> u8 list list \<Rightarrow> Client" where
  "Client_update_receive fp c now dgs =
     (if cl_state c = DISCONNECTED then c else Client_receivePackets fp c now dgs)"

section \<open>Host\<close>

text \<open>
  The fields of \<^verbatim>\<open>class Host\<close>. \<open>hs_sent\<close> collects, in order, the datagrams handed to
  \<^verbatim>\<open>sendto\<close> with their destinations; \<open>hs_events\<close> collects the calls of the callbacks
  \<^verbatim>\<open>onPlayerConnected\<close> and \<^verbatim>\<open>onPlayerDisconnected\<close> that the code makes when they are
  set. A \<^verbatim>\<open>Connection&\<close> or \<^verbatim>\<open>Connection*\<close> into \<^verbatim>\<open>connections_\<close> is the key of the
  entry; a loop over a container visits the keys it held when the loop began.
\<close>

datatype HostEvent = OnPlayerConnected u32 | OnPlayerDisconnected u32

record Host =
  hs_running :: bool
  hs_currentTick :: u32
  hs_nextPlayerId :: u32
  hs_tickAccumulator :: float32
  hs_snapshotAccumulator :: float32
  hs_connections :: "(u32 \<times> Connection) list"
  hs_players :: "(u32 \<times> PlayerState) list"
  hs_sent :: "(sockaddr_in \<times> u8 list) list"
  hs_events :: "HostEvent list"

definition Host_sendTo :: "Host \<Rightarrow> Connection \<Rightarrow> PacketBuffer \<Rightarrow> Host" where
  "Host_sendTo h conn buffer = h\<lparr>hs_sent := hs_sent h @ [(cn_address conn, datagram buffer)]\<rparr>"

definition Host_applyInput :: "float_ops \<Rightarrow> Host \<Rightarrow> u32 \<Rightarrow> PlayerInput \<Rightarrow> Host" where
  "Host_applyInput fp h playerId input =
     (case map_of (hs_players h) playerId of
        None \<Rightarrow> h
      | Some state \<Rightarrow>
          (let velocity = fmul fp F_5 (in_deltaTime input);
               yawRad = float_of_double fp
                          (ddiv fp (dmul fp (double_of_float fp (in_yaw input)) M_PI)
                                   (double_of_float fp F_180));
               p0 = ps_position state;
               p1 = (if in_keys input AND 0x01 \<noteq> 0
                     then p0\<lparr>vx := fadd fp (vx p0) (fmul fp (cosf fp yawRad) velocity),
                             vz := fadd fp (vz p0) (fmul fp (sinf fp yawRad) velocity)\<rparr>
                     else p0);
               p2 = (if in_keys input AND 0x02 \<noteq> 0
                     then p1\<lparr>vx := fsub fp (vx p1) (fmul fp (cosf fp yawRad) velocity),
                             vz := fsub fp (vz p1) (fmul fp (sinf fp yawRad) velocity)\<rparr>
                     else p1);
               p3 = (if in_keys input AND 0x04 \<noteq> 0
                     then p2\<lparr>vx := fadd fp (vx p2) (fmul fp (sinf fp yawRad) velocity),
                             vz := fsub fp (vz p2) (fmul fp (cosf fp yawRad) velocity)\<rparr>
                     else p2);
               p4 = (if in_keys input AND 0x08 \<noteq> 0
                     then p3\<lparr>vx := fsub fp (vx p3) (fmul fp (sinf fp yawRad) velocity),
                             vz := fadd fp (vz p3) (fmul fp (cosf fp yawRad) velocity)\<rparr>
                     else p3);
               p5 = (if in_keys input AND 0x10 \<noteq> 0
                     then p4\<lparr>vy := fadd fp (vy p4) velocity\<rparr> else p4);
               p6 = (if in_keys input AND 0x20 \<noteq> 0
                     then p5\<lparr>vy := fsub fp (vy p5) velocity\<rparr> else p5);
               state1 = state\<lparr>ps_position := p6, ps_yaw := in_yaw input,
                          ps_pitch := in_pitch input, ps_tick := hs_currentTick h\<rparr>
           in h\<lparr>hs_players := AList.update playerId state1 (hs_players h)\<rparr>))"

text \<open>The inner \<^verbatim>\<open>while\<close> loop of \<^verbatim>\<open>processTick\<close> for the connection \<open>cid\<close>, on its queue.\<close>

fun Host_drainInputs :: "float_ops \<Rightarrow> u32 \<Rightarrow> PlayerInput list \<Rightarrow> Host \<Rightarrow> Host" where
  "Host_drainInputs fp cid [] h = h"
| "Host_drainInputs fp cid (input # rest) h =
     (let conn = at_default Connection0 (hs_connections h) cid;
          h1 = (if cn_lastProcessedInput conn < in_sequence input then
                  (let h2 = Host_applyInput fp h cid input;
                       h3 = h2\<lparr>hs_connections :=
                               AList.map_entry cid
                                 (\<lambda>c. c\<lparr>cn_lastProcessedInput := in_sequence input\<rparr>)
                                 (hs_connections h2)\<rparr>
                   in if map_of (hs_players h3) cid \<noteq> None
                      then h3\<lparr>hs_players :=
                              AList.map_entry cid
                                (\<lambda>s. s\<lparr>ps_lastProcessedInput := in_sequence input\<rparr>)
                                (hs_players h3)\<rparr>
                      else h3)
                else h)
      in Host_drainInputs fp cid rest h1)"

definition Host_processTick :: "float_ops \<Rightarrow> Host \<Rightarrow> Host" where
  "Host_processTick fp h =
     fold (\<lambda>cid h1.
             (let conn = at_default Connection0 (hs_connections h1) cid;
                  h2 = Host_drainInputs fp cid (cn_pendingInputs conn) h1
              in h2\<lparr>hs_connections :=
                      AList.map_entry cid (\<lambda>c. c\<lparr>cn_pendingInputs := []\<rparr>) (hs_connections h2)\<rparr>))
          (map fst (hs_connections h))
          (h\<lparr>hs_currentTick := hs_currentTick h + 1\<rparr>)"

text \<open>
  The packet that \<^verbatim>\<open>sendStateUpdates\<close> builds for one connection (lines 348 to 375) from
  the header it has filled in and the players.
\<close>

definition Host_stateUpdatePacket ::
  "PacketHeader \<Rightarrow> (u32 \<times> PlayerState) list \<Rightarrow> PacketBuffer" where
  "Host_stateUpdatePacket header players =
     (let buffer = local_buffer;
          headerPos = writePos buffer;
          buffer1 = buffer\<lparr>writePos := writePos buffer + 22\<rparr>;
          playerCount = (of_nat (length players) :: u8);
          buffer2 = writeU8 buffer1 playerCount;
          buffer3 = foldl writePlayerState buffer2 (map snd players);
          header1 = header\<lparr>h_payloadSize := of_nat (writePos buffer3 - headerPos - 22)\<rparr>;
          savedPos = writePos buffer3;
          buffer4 = writeHeader (buffer3\<lparr>writePos := headerPos\<rparr>) header1
      in buffer4\<lparr>writePos := savedPos\<rparr>)"

definition Host_sendStateUpdates :: "Host \<Rightarrow> Host" where
  "Host_sendStateUpdates h =
     fold (\<lambda>connId h1.
             (let conn = at_default Connection0 (hs_connections h1) connId
              in if cn_state conn \<noteq> CONNECTED then h1
                 else
                   (let conn1 = conn\<lparr>cn_localSequence := cn_localSequence conn + 1\<rparr>;
                        header = PacketHeader0\<lparr>h_type := STATE_UPDATE,
                                   h_sequence := cn_localSequence conn1,
                                   h_ack := cn_remoteSequence conn1,
                                   h_ackBits := cn_ackBits conn1,
                                   h_tick := hs_currentTick h1\<rparr>;
                        h2 = h1\<lparr>hs_connections := AList.update connId conn1 (hs_connections h1)\<rparr>
                    in Host_sendTo h2 conn1 (Host_stateUpdatePacket header (hs_players h2)))))
          (map fst (hs_connections h)) h"

text \<open>\<^verbatim>\<open>sendConnectAccept(conn)\<close>; \<open>clk\<close> is what \<^verbatim>\<open>getTime()\<close> returns in it.\<close>

definition Host_sendConnectAccept :: "Host \<Rightarrow> u32 \<Rightarrow> float32 \<Rightarrow> Host" where
  "Host_sendConnectAccept h cid clk =
     (let conn = at_default Connection0 (hs_connections h) cid;
          conn1 = conn\<lparr>cn_localSequence := cn_localSequence conn + 1\<rparr>;
          header = PacketHeader0\<lparr>h_type := CONNECT_ACCEPT, h_sequence := cn_localSequence conn1,
                     h_tick := hs_currentTick h\<rparr>;
          buffer = writeU32 (writeU32 (writeHeader local_buffer header) (cn_playerId conn1))
                     (hs_currentTick h);
          h1 = Host_sendTo h conn1 buffer;
          conn2 = conn1\<lparr>cn_lastSendTime := clk\<rparr>
      in h1\<lparr>hs_connections := AList.update cid conn2 (hs_connections h1)\<rparr>)"

definition cube :: "u32 \<Rightarrow> Vec3 \<Rightarrow> EntityState" where
  "cube n pos = \<lparr>es_entityId = n, es_entityType = 1, es_position = pos,
     es_velocity = vec3 F_0 F_0 F_0, es_yaw = F_0, es_pitch = F_0\<rparr>"

definition Host_worldSnapshotPacket ::
  "PacketHeader \<Rightarrow> (u32 \<times> PlayerState) list \<Rightarrow> PacketBuffer" where
  "Host_worldSnapshotPacket header players =
     (let buffer = local_buffer;
          headerPos = writePos buffer;
          buffer1 = buffer\<lparr>writePos := writePos buffer + 22\<rparr>;
          buffer2 = writeU8 buffer1 (of_nat (length players) :: u8);
          buffer3 = foldl writePlayerState buffer2 (map snd players);
          buffer4 = writeU8 buffer3 3;
          buffer5 = writeEntityState buffer4 (cube 1 (vec3 F_0 F_1 F_0));
          buffer6 = writeEntityState buffer5 (cube 2 (vec3 F_5 F_1 F_3));
          buffer7 = writeEntityState buffer6 (cube 3 (vec3 F_neg3 F_0_5 F_neg5));
          header1 = header\<lparr>h_payloadSize := of_nat (writePos buffer7 - headerPos - 22)\<rparr>;
          savedPos = writePos buffer7;
          buffer8 = writeHeader (buffer7\<lparr>writePos := headerPos\<rparr>) header1
      in buffer8\<lparr>writePos := savedPos\<rparr>)"

definition Host_sendWorldSnapshot :: "Host \<Rightarrow> u32 \<Rightarrow> Host" where
  "Host_sendWorldSnapshot h cid =
     (let conn = at_default Connection0 (hs_connections h) cid;
          conn1 = conn\<lparr>cn_localSequence := cn_localSequence conn + 1\<rparr>;
          header = PacketHeader0\<lparr>h_type := WORLD_SNAPSHOT, h_sequence := cn_localSequence conn1,
                     h_tick := hs_currentTick h\<rparr>;
          h1 = h\<lparr>hs_connections := AList.update cid conn1 (hs_connections h)\<rparr>
      in Host_sendTo h1 conn1 (Host_worldSnapshotPacket header (hs_players h1)))"

definition Host_broadcastEntityCreate :: "Host \<Rightarrow> u32 \<Rightarrow> Host" where
  "Host_broadcastEntityCreate h entityId =
     fold (\<lambda>connId h1.
             (let conn = at_default Connection0 (hs_connections h1) connId
              in if cn_state conn \<noteq> CONNECTED then h1
                 else if connId = entityId then h1
                 else
                   (let conn1 = conn\<lparr>cn_localSequence := cn_localSequence conn + 1\<rparr>;
                        header = PacketHeader0\<lparr>h_type := ENTITY_CREATE,
                                   h_sequence := cn_localSequence conn1,
                                   h_tick := hs_currentTick h1\<rparr>;
                        buffer1 = writeU8 (writeU32 (writeHeader local_buffer header) entityId) 0;
                        h2 = h1\<lparr>hs_connections := AList.update connId conn1 (hs_connections h1),
                                hs_players := ensure_key PlayerState0 entityId (hs_players h1)\<rparr>;
                        buffer2 = writeVec3 buffer1
                                    (ps_position (at_default PlayerState0 (hs_players h2) entityId))
                    in Host_sendTo h2 conn1 buffer2)))
          (map fst (hs_connections h)) h"

definition Host_broadcastEntityDestroy :: "Host \<Rightarrow> u32 \<Rightarrow> Host" where
  "Host_broadcastEntityDestroy h entityId =
     fold (\<lambda>connId h1.
             (let conn = at_default Connection0 (hs_connections h1) connId
              in if cn_state conn \<noteq> CONNECTED then h1
                 else
                   (let conn1 = conn\<lparr>cn_localSequence := cn_localSequence conn + 1\<rparr>;
                        header = PacketHeader0\<lparr>h_type := ENTITY_DESTROY,
                                   h_sequence := cn_localSequence conn1,
                                   h_tick := hs_currentTick h1\<rparr>;
                        buffer = writeU32 (writeHeader local_buffer header) entityId;
                        h2 = h1\<lparr>hs_connections := AList.update connId conn1 (hs_connections h1)\<rparr>
                    in Host_sendTo h2 conn1 buffer)))
          (map fst (hs_connections h)) h"

definition Host_findConnection :: "Host \<Rightarrow> sockaddr_in \<Rightarrow> (u32 \<times> Connection) option" where
  "Host_findConnection h addr =
     find (\<lambda>(cid, conn). addressEqual (cn_address conn) addr) (hs_connections h)"

definition Host_handleConnectRequest :: "Host \<Rightarrow> sockaddr_in \<Rightarrow> float32 \<Rightarrow> float32 \<Rightarrow> Host" where
  "Host_handleConnectRequest h fromAddr now clk =
     (case (case Host_findConnection h fromAddr of
              Some (cid, existing) \<Rightarrow> if cn_state existing = CONNECTED then Some cid else None
            | None \<Rightarrow> None) of
        Some cid \<Rightarrow> Host_sendConnectAccept h cid clk
      | None \<Rightarrow>
          (let playerId = hs_nextPlayerId h;
               h1 = h\<lparr>hs_nextPlayerId := hs_nextPlayerId h + 1\<rparr>;
               conn = (at_default Connection0 (hs_connections h1) playerId)
                        \<lparr>cn_playerId := playerId, cn_address := fromAddr, cn_state := CONNECTED,
                         cn_lastReceiveTime := now, cn_localSequence := 0,
                         cn_remoteSequence := 0\<rparr>;
               h2 = h1\<lparr>hs_connections := AList.update playerId conn (hs_connections h1)\<rparr>;
               state = PlayerState0\<lparr>ps_playerId := playerId, ps_position := vec3 F_0 F_1_7 F_5,
                         ps_yaw := F_neg90, ps_pitch := F_0\<rparr>;
               h3 = h2\<lparr>hs_players := AList.update playerId state (hs_players h2)\<rparr>;
               h4 = Host_sendConnectAccept h3 playerId clk;
               h5 = Host_sendWorldSnapshot h4 playerId;
               h6 = Host_broadcastEntityCreate h5 playerId
           in h6\<lparr>hs_events := hs_events h6 @ [OnPlayerConnected playerId]\<rparr>))"

definition Host_handleDisconnect :: "Host \<Rightarrow> u32 \<Rightarrow> Host" where
  "Host_handleDisconnect h cid =
     (let playerId = cn_playerId (at_default Connection0 (hs_connections h) cid);
          h1 = Host_broadcastEntityDestroy h playerId;
          h2 = h1\<lparr>hs_players := AList.delete playerId (hs_players h1)\<rparr>;
          h3 = h2\<lparr>hs_connections := AList.delete playerId (hs_connections h2)\<rparr>
      in h3\<lparr>hs_events := hs_events h3 @ [OnPlayerDisconnected playerId]\<rparr>)"

text \<open>The loop of \<^verbatim>\<open>handleInput\<close> for the connection \<open>cid\<close>, \<open>n\<close> iterations left.\<close>

fun Host_handleInput_loop :: "nat \<Rightarrow> u32 \<Rightarrow> Host \<Rightarrow> PacketBuffer \<Rightarrow> Host" where
  "Host_handleInput_loop 0 cid h b = h"
| "Host_handleInput_loop (Suc n) cid h b =
     (let (input, b1) = readPlayerInput b;
          conn = at_default Connection0 (hs_connections h) cid;
          h1 = (if cn_lastProcessedInput conn < in_sequence input
                then h\<lparr>hs_connections :=
                        AList.map_entry cid
                          (\<lambda>c. c\<lparr>cn_pendingInputs := cn_pendingInputs c @ [input]\<rparr>)
                          (hs_connections h)\<rparr>
                else h)
      in Host_handleInput_loop n cid h1 b1)"

definition Host_handleInput :: "Host \<Rightarrow> u32 \<Rightarrow> PacketBuffer \<Rightarrow> u16 \<Rightarrow> Host" where
  "Host_handleInput h cid buffer payloadSize =
     Host_handleInput_loop (unat payloadSize div 21) cid h buffer"

text \<open>The two statements that the HEARTBEAT, INPUT and ACK cases share.\<close>

definition Host_touch :: "Host \<Rightarrow> u32 \<Rightarrow> PacketHeader \<Rightarrow> float32 \<Rightarrow> Host" where
  "Host_touch h cid header now =
     h\<lparr>hs_connections :=
         AList.map_entry cid (\<lambda>c. Host_updateAcks (c\<lparr>cn_lastReceiveTime := now\<rparr>) header)
           (hs_connections h)\<rparr>"

definition Host_handlePacket ::
  "Host \<Rightarrow> PacketHeader \<Rightarrow> PacketBuffer \<Rightarrow> sockaddr_in \<Rightarrow> float32 \<Rightarrow> float32 \<Rightarrow> Host" where
  "Host_handlePacket h header buffer fromAddr now clk =
     (let conn = Host_findConnection h fromAddr
      in if h_type header = CONNECT_REQUEST then Host_handleConnectRequest h fromAddr now clk
         else if h_type header = DISCONNECT then
           (case conn of Some (cid, c) \<Rightarrow> Host_handleDisconnect h cid | None \<Rightarrow> h)
         else if h_type header = HEARTBEAT then
           (case conn of Some (cid, c) \<Rightarrow> Host_touch h cid header now | None \<Rightarrow> h)
         else if h_type header = INPUT then
           (case conn of
              Some (cid, c) \<Rightarrow>
                if cn_state c = CONNECTED
                then Host_handleInput (Host_touch h cid header now) cid buffer (h_payloadSize header)
                else h
            | None \<Rightarrow> h)
         else if h_type header = ACK then
           (case conn of Some (cid, c) \<Rightarrow> Host_touch h cid header now | None \<Rightarrow> h)
         else h)"

text \<open>
  \<^verbatim>\<open>receivePackets(now)\<close>, given the datagrams that wait at the socket, in order, each with
  its sender and with the value \<open>clk\<close> that \<^verbatim>\<open>getTime()\<close> returns while it is handled.
  \<^verbatim>\<open>recvfrom\<close> returns -1 when none is left and 0 for an empty datagram; both end the loop.
\<close>

fun Host_receive_loop ::
  "Host \<Rightarrow> (nat \<Rightarrow> u8) \<Rightarrow> float32 \<Rightarrow> (sockaddr_in \<times> u8 list \<times> float32) list \<Rightarrow> Host" where
  "Host_receive_loop h old now [] = h"
| "Host_receive_loop h old now ((fromAddr, dg, clk) # dgs) =
     (if length dg = 0 then h
      else
        (let buffer = recv_buffer old dg;
             (header, buffer1) = readHeader buffer
         in if \<not> isValid header then Host_receive_loop h (data buffer1) now dgs
            else Host_receive_loop (Host_handlePacket h header buffer1 fromAddr now clk)
                   (data buffer1) now dgs))"

definition Host_receivePackets ::
  "Host \<Rightarrow> float32 \<Rightarrow> (sockaddr_in \<times> u8 list \<times> float32) list \<Rightarrow> Host" where
  "Host_receivePackets h now dgs = Host_receive_loop h (data local_buffer) now dgs"

section \<open>Initial states\<close>

text \<open>
  The peers as their constructors leave them. Members that the constructors leave
  uninitialised (\<^verbatim>\<open>ackBits_\<close>, \<^verbatim>\<open>connectStartTime_\<close>, the states and the arrays of the
  history) are taken as zero.
\<close>

definition PlayerInput0 :: PlayerInput where
  "PlayerInput0 = \<lparr>in_sequence = 0, in_tick = 0, in_keys = 0, in_yaw = F_0, in_pitch = F_0,
     in_deltaTime = F_0\<rparr>"

definition InputHistory0 :: InputHistory where
  "InputHistory0 = \<lparr>ih_inputs = (\<lambda>i. PlayerInput0), ih_predictedStates = (\<lambda>i. PlayerState0),
     ih_head = 0, ih_count = 0\<rparr>"

definition Client0 :: Client where
  "Client0 = \<lparr>cl_socketOpen = False, cl_serverAddr = (0, 0), cl_state = DISCONNECTED,
     cl_playerId = 0, cl_serverTick = 0, cl_localSequence = 0, cl_remoteSequence = 0,
     cl_ackBits = 0, cl_inputSequence = 0, cl_lastSendTime = F_0, cl_lastReceiveTime = F_0,
     cl_connectStartTime = F_0, cl_rtt = F_0_1, cl_localState = PlayerState0,
     cl_lastServerState = PlayerState0, cl_remotePlayers = [], cl_interpolationStates = [],
     cl_inputHistory = InputHistory0, cl_sent = [], cl_events = []\<rparr>"

definition Host0 :: Host where
  "Host0 = \<lparr>hs_running = False, hs_currentTick = 0, hs_nextPlayerId = 1,
     hs_tickAccumulator = F_0, hs_snapshotAccumulator = F_0, hs_connections = [],
     hs_players = [], hs_sent = [], hs_events = []\<rparr>"

section \<open>Auxiliary facts on words\<close>

lemma unat_diff_lt: "(r :: u32) < s \<Longrightarrow> unat (s - r) = unat s - unat r"
  by (simp add: unat_sub less_imp_le)

lemma diff_lt_32_iff: "(r :: u32) < s \<Longrightarrow> (s - r < 32) = (unat s - unat r < 32)"
  by (simp add: word_less_nat_alt unat_diff_lt)

lemma bit_set_pow: "d < 32 \<Longrightarrow> bit ((B :: u32) OR 2 ^ d) d"
  by (simp add: bit_simps)

section \<open>The acknowledgement bitfield\<close>

lemma Host_updateAcks_newer:
  assumes "cn_remoteSequence conn < h_sequence header"
  shows "Host_updateAcks conn header =
     conn\<lparr>cn_ackBits :=
            (if unat (h_sequence header) - unat (cn_remoteSequence conn) < 32
             then push_bit (unat (h_sequence header) - unat (cn_remoteSequence conn))
                    (cn_ackBits conn) OR 1
             else 1),
          cn_remoteSequence := h_sequence header\<rparr>"
  using assms by (simp add: Host_updateAcks_def Let_def diff_lt_32_iff unat_diff_lt)

lemma Host_updateAcks_older:
  assumes "h_sequence header < cn_remoteSequence conn"
  shows "Host_updateAcks conn header =
     (if unat (cn_remoteSequence conn) - unat (h_sequence header) < 32
      then conn\<lparr>cn_ackBits := cn_ackBits conn OR
                   push_bit (unat (cn_remoteSequence conn) - unat (h_sequence header)) 1\<rparr>
      else conn)"
proof -
  have "\<not> cn_remoteSequence conn < h_sequence header"
    using assms by simp
  then show ?thesis
    using assms
    by (simp only: Host_updateAcks_def Let_def diff_lt_32_iff unat_diff_lt if_False if_True)
qed

lemma Host_updateAcks_same:
  "h_sequence header = cn_remoteSequence conn \<Longrightarrow> Host_updateAcks conn header = conn"
  by (simp add: Host_updateAcks_def)

lemma Client_updateAcks_newer:
  assumes "cl_remoteSequence c < h_sequence header"
  shows "Client_updateAcks c header =
     c\<lparr>cl_ackBits :=
            (if unat (h_sequence header) - unat (cl_remoteSequence c) < 32
             then push_bit (unat (h_sequence header) - unat (cl_remoteSequence c))
                    (cl_ackBits c) OR 1
             else 1),
          cl_remoteSequence := h_sequence header\<rparr>"
  using assms by (simp add: Client_updateAcks_def Let_def diff_lt_32_iff unat_diff_lt)

lemma Client_updateAcks_older:
  assumes "h_sequence header < cl_remoteSequence c"
  shows "Client_updateAcks c header =
     (if unat (cl_remoteSequence c) - unat (h_sequence header) < 32
      then c\<lparr>cl_ackBits := cl_ackBits c OR
                   push_bit (unat (cl_remoteSequence c) - unat (h_sequence header)) 1\<rparr>
      else c)"
proof -
  have "\<not> cl_remoteSequence c < h_sequence header"
    using assms by simp
  then show ?thesis
    using assms
    by (simp only: Client_updateAcks_def Let_def diff_lt_32_iff unat_diff_lt if_False if_True)
qed

lemma Client_updateAcks_same:
  "h_sequence header = cl_remoteSequence c \<Longrightarrow> Client_updateAcks c header = c"
  by (simp add: Client_updateAcks_def)

lemma Host_updateAcks_cases:
  "(cn_remoteSequence conn < h_sequence header \<and>
    unat (h_sequence header) - unat (cn_remoteSequence conn) < 32 \<longrightarrow>
      cn_ackBits (Host_updateAcks conn header) =
        push_bit (unat (h_sequence header) - unat (cn_remoteSequence conn)) (cn_ackBits conn) OR 1 \<and>
      cn_remoteSequence (Host_updateAcks conn header) = h_sequence header) \<and>
   (cn_remoteSequence conn < h_sequence header \<and>
    32 \<le> unat (h_sequence header) - unat (cn_remoteSequence conn) \<longrightarrow>
      cn_ackBits (Host_updateAcks conn header) = 1 \<and>
      cn_remoteSequence (Host_updateAcks conn header) = h_sequence header) \<and>
   (h_sequence header < cn_remoteSequence conn \<and>
    unat (cn_remoteSequence conn) - unat (h_sequence header) < 32 \<longrightarrow>
      bit (cn_ackBits (Host_updateAcks conn header))
        (unat (cn_remoteSequence conn) - unat (h_sequence header)) \<and>
      Host_updateAcks conn header =
        conn\<lparr>cn_ackBits := cn_ackBits conn OR
                 push_bit (unat (cn_remoteSequence conn) - unat (h_sequence header)) 1\<rparr>) \<and>
   (h_sequence header = cn_remoteSequence conn \<or>
    h_sequence header < cn_remoteSequence conn \<and>
    32 \<le> unat (cn_remoteSequence conn) - unat (h_sequence header) \<longrightarrow>
      Host_updateAcks conn header = conn)"
proof (intro conjI impI)
  assume "h_sequence header = cn_remoteSequence conn \<or>
    h_sequence header < cn_remoteSequence conn \<and>
    32 \<le> unat (cn_remoteSequence conn) - unat (h_sequence header)"
  then show "Host_updateAcks conn header = conn"
  proof
    assume "h_sequence header = cn_remoteSequence conn"
    then show ?thesis by (rule Host_updateAcks_same)
  next
    assume "h_sequence header < cn_remoteSequence conn \<and>
      32 \<le> unat (cn_remoteSequence conn) - unat (h_sequence header)"
    then show ?thesis by (simp add: Host_updateAcks_older)
  qed
qed (simp_all add: Host_updateAcks_newer Host_updateAcks_older bit_set_pow)

lemma Client_updateAcks_cases:
  "(cl_remoteSequence c < h_sequence header \<and>
    unat (h_sequence header) - unat (cl_remoteSequence c) < 32 \<longrightarrow>
      cl_ackBits (Client_updateAcks c header) =
        push_bit (unat (h_sequence header) - unat (cl_remoteSequence c)) (cl_ackBits c) OR 1 \<and>
      cl_remoteSequence (Client_updateAcks c header) = h_sequence header) \<and>
   (cl_remoteSequence c < h_sequence header \<and>
    32 \<le> unat (h_sequence header) - unat (cl_remoteSequence c) \<longrightarrow>
      cl_ackBits (Client_updateAcks c header) = 1 \<and>
      cl_remoteSequence (Client_updateAcks c header) = h_sequence header) \<and>
   (h_sequence header < cl_remoteSequence c \<and>
    unat (cl_remoteSequence c) - unat (h_sequence header) < 32 \<longrightarrow>
      bit (cl_ackBits (Client_updateAcks c header))
        (unat (cl_remoteSequence c) - unat (h_sequence header)) \<and>
      Client_updateAcks c header =
        c\<lparr>cl_ackBits := cl_ackBits c OR
              push_bit (unat (cl_remoteSequence c) - unat (h_sequence header)) 1\<rparr>) \<and>
   (h_sequence header = cl_remoteSequence c \<or>
    h_sequence header < cl_remoteSequence c \<and>
    32 \<le> unat (cl_remoteSequence c) - unat (h_sequence header) \<longrightarrow>
      Client_updateAcks c header = c)"
proof (intro conjI impI)
  assume "h_sequence header = cl_remoteSequence c \<or>
    h_sequence header < cl_remoteSequence c \<and>
    32 \<le> unat (cl_remoteSequence c) - unat (h_sequence header)"
  then show "Client_updateAcks c header = c"
  proof
    assume "h_sequence header = cl_remoteSequence c"
    then show ?thesis by (rule Client_updateAcks_same)
  next
    assume "h_sequence header < cl_remoteSequence c \<and>
      32 \<le> unat (cl_remoteSequence c) - unat (h_sequence header)"
    then show ?thesis by (simp add: Client_updateAcks_older)
  qed
qed (simp_all add: Client_updateAcks_newer Client_updateAcks_older bit_set_pow)

text \<open>
  Claim C5. On a packet with sequence \<open>S\<close>, with \<open>R\<close> the connection's remote sequence and
  \<open>B\<close> its ack bits, \<^verbatim>\<open>updateAcks\<close> of the host and of the client do the same: if \<open>S > R\<close>
  the new ack bits are \<open>(B << (S - R)) | 1\<close> when \<open>S - R < 32\<close> and \<open>1\<close> when \<open>S - R \<ge> 32\<close>,
  and the remote sequence becomes \<open>S\<close>; if \<open>S < R\<close> and \<open>R - S < 32\<close>, bit \<open>R - S\<close> of the ack
  bits is set (and nothing else changes); if \<open>S = R\<close>, or \<open>S < R\<close> with \<open>R - S \<ge> 32\<close>,
  nothing changes. The differences are those of the numbers \<open>unat S\<close> and \<open>unat R\<close>.
\<close>

theorem C5_updateAcks:
  "((cn_remoteSequence conn < h_sequence header \<and>
     unat (h_sequence header) - unat (cn_remoteSequence conn) < 32 \<longrightarrow>
       cn_ackBits (Host_updateAcks conn header) =
         push_bit (unat (h_sequence header) - unat (cn_remoteSequence conn)) (cn_ackBits conn) OR 1 \<and>
       cn_remoteSequence (Host_updateAcks conn header) = h_sequence header) \<and>
    (cn_remoteSequence conn < h_sequence header \<and>
     32 \<le> unat (h_sequence header) - unat (cn_remoteSequence conn) \<longrightarrow>
       cn_ackBits (Host_updateAcks conn header) = 1 \<and>
       cn_remoteSequence (Host_updateAcks conn header) = h_sequence header) \<and>
    (h_sequence header < cn_remoteSequence conn \<and>
     unat (cn_remoteSequence conn) - unat (h_sequence header) < 32 \<longrightarrow>
       bit (cn_ackBits (Host_updateAcks conn header))
         (unat (cn_remoteSequence conn) - unat (h_sequence header)) \<and>
       Host_updateAcks conn header =
         conn\<lparr>cn_ackBits := cn_ackBits conn OR
                  push_bit (unat (cn_remoteSequence conn) - unat (h_sequence header)) 1\<rparr>) \<and>
    (h_sequence header = cn_remoteSequence conn \<or>
     h_sequence header < cn_remoteSequence conn \<and>
     32 \<le> unat (cn_remoteSequence conn) - unat (h_sequence header) \<longrightarrow>
       Host_updateAcks conn header = conn)) \<and>
   ((cl_remoteSequence c < h_sequence header \<and>
     unat (h_sequence header) - unat (cl_remoteSequence c) < 32 \<longrightarrow>
       cl_ackBits (Client_updateAcks c header) =
         push_bit (unat (h_sequence header) - unat (cl_remoteSequence c)) (cl_ackBits c) OR 1 \<and>
       cl_remoteSequence (Client_updateAcks c header) = h_sequence header) \<and>
    (cl_remoteSequence c < h_sequence header \<and>
     32 \<le> unat (h_sequence header) - unat (cl_remoteSequence c) \<longrightarrow>
       cl_ackBits (Client_updateAcks c header) = 1 \<and>
       cl_remoteSequence (Client_updateAcks c header) = h_sequence header) \<and>
    (h_sequence header < cl_remoteSequence c \<and>
     unat (cl_remoteSequence c) - unat (h_sequence header) < 32 \<longrightarrow>
       bit (cl_ackBits (Client_updateAcks c header))
         (unat (cl_remoteSequence c) - unat (h_sequence header)) \<and>
       Client_updateAcks c header =
         c\<lparr>cl_ackBits := cl_ackBits c OR
               push_bit (unat (cl_remoteSequence c) - unat (h_sequence header)) 1\<rparr>) \<and>
    (h_sequence header = cl_remoteSequence c \<or>
     h_sequence header < cl_remoteSequence c \<and>
     32 \<le> unat (cl_remoteSequence c) - unat (h_sequence header) \<longrightarrow>
       Client_updateAcks c header = c))"
  by (rule conjI [OF Host_updateAcks_cases Client_updateAcks_cases])

text \<open>
  The theorem at a host connection and a client that have seen sequence 5 (ack bits 1)
  and receive sequence 7: the ack bits become \<open>(1 << 2) | 1 = 5\<close>.
\<close>

theorem C5_updateAcks_witness:
  "cn_ackBits (Host_updateAcks (Connection0\<lparr>cn_remoteSequence := 5, cn_ackBits := 1\<rparr>)
      (PacketHeader0\<lparr>h_sequence := 7\<rparr>)) = 5 \<and>
   cn_remoteSequence (Host_updateAcks (Connection0\<lparr>cn_remoteSequence := 5, cn_ackBits := 1\<rparr>)
      (PacketHeader0\<lparr>h_sequence := 7\<rparr>)) = 7 \<and>
   cl_ackBits (Client_updateAcks (Client0\<lparr>cl_remoteSequence := 5, cl_ackBits := 1\<rparr>)
      (PacketHeader0\<lparr>h_sequence := 7\<rparr>)) = 5 \<and>
   cl_remoteSequence (Client_updateAcks (Client0\<lparr>cl_remoteSequence := 5, cl_ackBits := 1\<rparr>)
      (PacketHeader0\<lparr>h_sequence := 7\<rparr>)) = 7"
  using C5_updateAcks [of "Connection0\<lparr>cn_remoteSequence := 5, cn_ackBits := 1\<rparr>"
      "PacketHeader0\<lparr>h_sequence := 7\<rparr>"
      "Client0\<lparr>cl_remoteSequence := 5, cl_ackBits := 1\<rparr>"]
  by (simp add: Connection0_def PacketHeader0_def Client0_def)

section \<open>Datagrams shorter than the magic field\<close>

text \<open>
  Claim C10. For every buffer whose write cursor is below 4, \<^verbatim>\<open>readHeader\<close> returns a
  header whose \<^verbatim>\<open>isValid()\<close> is true: \<^verbatim>\<open>readBytes\<close> copies nothing, and the magic of the
  default-constructed header stays. A datagram of fewer than four bytes is therefore not
  rejected by the magic check.
\<close>

theorem C10_short_datagram_passes_magic_gate:
  "writePos b < 4 \<Longrightarrow> isValid (fst (readHeader b))"
  by (simp add: readHeader_def readBytes_def magic_bytes_def bytes_magic_def PacketHeader0_def
      isValid_def split: prod.splits)

text \<open>The theorem at the buffer that holds the received one-byte datagram \<open>[0x01]\<close>.\<close>

theorem C10_short_datagram_witness:
  "writePos (recv_buffer (\<lambda>i. 0) [0x01]) < 4 \<and>
   isValid (fst (readHeader (recv_buffer (\<lambda>i. 0) [0x01])))"
  using C10_short_datagram_passes_magic_gate [of "recv_buffer (\<lambda>i. 0) [0x01]"]
  by (simp add: recv_buffer_def MAX_PACKET_SIZE_def)

end
